theory Spec2Isabelle
  imports Main
begin

section \<open>Calendar dates\<close>

text \<open>
  The handler of \<^verbatim>\<open>main.py\<close> receives the path parameter as a string, turns it into a
  \<^verbatim>\<open>datetime.date\<close> with \<^verbatim>\<open>datetime.strptime(date_str, "%Y-%m-%d").date()\<close> and renders
  the date column of the row it finds with \<^verbatim>\<open>strftime("%Y-%m-%d")\<close>. Both are functions of
  Python's standard library; they are modelled here from CPython's \<^verbatim>\<open>Lib/datetime.py\<close> and
  \<^verbatim>\<open>Lib/_strptime.py\<close>.

  Strings are HOL strings, whose characters are the code points below 256. Among those
  the class \<^verbatim>\<open>\d\<close> of Python's \<^verbatim>\<open>re\<close> holds exactly the ten ASCII digits.
\<close>

record date =
  year :: nat
  month :: nat
  day :: nat

text \<open>\<^verbatim>\<open>_is_leap\<close> and \<^verbatim>\<open>_days_in_month\<close> of \<^verbatim>\<open>datetime.py\<close>; the table is
  \<^verbatim>\<open>_DAYS_IN_MONTH\<close>, whose entry 0 is a placeholder.\<close>

definition is_leap :: "nat \<Rightarrow> bool" where
  "is_leap y = (y mod 4 = 0 \<and> (y mod 100 \<noteq> 0 \<or> y mod 400 = 0))"

definition days_in_month :: "nat \<Rightarrow> nat \<Rightarrow> nat" where
  "days_in_month y m =
     (if m = 2 \<and> is_leap y then 29
      else [0, 31, 28, 31, 30, 31, 30, 31, 31, 30, 31, 30, 31] ! m)"

text \<open>The constructor \<^verbatim>\<open>date(year, month, day)\<close>: \<^verbatim>\<open>_check_date_fields\<close> raises
  \<^verbatim>\<open>ValueError\<close> (here \<open>None\<close>) outside \<^verbatim>\<open>MINYEAR..MAXYEAR\<close>, outside the months 1..12 and
  outside the days of the month.\<close>

definition datetime_date :: "nat \<Rightarrow> nat \<Rightarrow> nat \<Rightarrow> date option" where
  "datetime_date y m d =
     (if \<not> (1 \<le> y \<and> y \<le> 9999) then None
      else if \<not> (1 \<le> m \<and> m \<le> 12) then None
      else if \<not> (1 \<le> d \<and> d \<le> days_in_month y m) then None
      else Some \<lparr>year = y, month = m, day = d\<rparr>)"

subsection \<open>Decimal digits\<close>

definition is_digit :: "char \<Rightarrow> bool" where
  "is_digit c = (c \<in> set ''0123456789'')"

definition digit_val :: "char \<Rightarrow> nat" where
  "digit_val c = of_char c - 48"

definition digit_char :: "nat \<Rightarrow> char" where
  "digit_char n = char_of (48 + n)"

text \<open>\<^verbatim>\<open>int(text)\<close> on the text of a regex group: blanks around the digits are stripped,
  anything that is not a run of digits raises \<^verbatim>\<open>ValueError\<close>.\<close>

definition int_of_digits :: "string \<Rightarrow> nat" where
  "int_of_digits ds = foldl (\<lambda>n c. 10 * n + digit_val c) 0 ds"

definition strip :: "string \<Rightarrow> string" where
  "strip s = rev (dropWhile (\<lambda>c. c = CHR '' '') (rev (dropWhile (\<lambda>c. c = CHR '' '') s)))"

definition py_int :: "string \<Rightarrow> nat option" where
  "py_int s =
     (let ds = strip s
      in if ds \<noteq> [] \<and> list_all is_digit ds then Some (int_of_digits ds) else None)"

subsection \<open>The compiled format \<^verbatim>\<open>%Y-%m-%d\<close>\<close>

text \<open>
  \<^verbatim>\<open>TimeRE.pattern\<close> replaces each directive by its regular expression:
  \<^verbatim>\<open>(?P<Y>\d\d\d\d)-(?P<m>1[0-2]|0[1-9]|[1-9])-(?P<d>3[0-1]|[1-2]\d|0[1-9]|[1-9]| [1-9])\<close>.
  A regular expression is a character class, a sequence or an ordered choice. \<open>rx_match\<close>
  lists, in the order in which a backtracking matcher tries them, the ways \<open>p\<close> matches a
  prefix of the input: the text matched and the rest.
\<close>

datatype rx = Cls string | Cat rx rx | Alt rx rx

fun rx_match :: "rx \<Rightarrow> string \<Rightarrow> (string \<times> string) list" where
  "rx_match (Cls cs) [] = []"
| "rx_match (Cls cs) (x # xs) = (if x \<in> set cs then [([x], xs)] else [])"
| "rx_match (Cat p q) s =
     concat (map (\<lambda>(t1, r1). map (\<lambda>(t2, r2). (t1 @ t2, r2)) (rx_match q r1)) (rx_match p s))"
| "rx_match (Alt p q) s = rx_match p s @ rx_match q s"

definition rx_digit :: rx where
  "rx_digit = Cls ''0123456789''"

definition rx_Y :: rx where
  "rx_Y = Cat rx_digit (Cat rx_digit (Cat rx_digit rx_digit))"

definition rx_m :: rx where
  "rx_m = Alt (Cat (Cls ''1'') (Cls ''012''))
         (Alt (Cat (Cls ''0'') (Cls ''123456789''))
              (Cls ''123456789''))"

definition rx_d :: rx where
  "rx_d = Alt (Cat (Cls ''3'') (Cls ''01''))
         (Alt (Cat (Cls ''12'') rx_digit)
         (Alt (Cat (Cls ''0'') (Cls ''123456789''))
         (Alt (Cls ''123456789'')
              (Cat (Cls '' '') (Cls ''123456789'')))))"

text \<open>\<^verbatim>\<open>format_regex.match(data_string)\<close>: the first way, in backtracking order, to match the
  whole pattern at the start of the string. The result holds the three groups and the
  text after the match.\<close>

definition format_regex_match :: "string \<Rightarrow> ((string \<times> string \<times> string) \<times> string) option" where
  "format_regex_match s =
     (case concat (map (\<lambda>(y, r1).
             concat (map (\<lambda>(h1, r2).
               concat (map (\<lambda>(m, r3).
                 concat (map (\<lambda>(h2, r4).
                   map (\<lambda>(d, r5). ((y, m, d), r5)) (rx_match rx_d r4))
                 (rx_match (Cls ''-'') r3)))
               (rx_match rx_m r2)))
             (rx_match (Cls ''-'') r1)))
           (rx_match rx_Y s)) of
        [] \<Rightarrow> None
      | found # _ \<Rightarrow> Some found)"

text \<open>
  \<^verbatim>\<open>_strptime\<close> raises \<^verbatim>\<open>ValueError\<close> when the pattern does not match or when text remains
  after the match, converts the groups with \<^verbatim>\<open>int\<close> and builds the date, which raises
  \<^verbatim>\<open>ValueError\<close> for a day that the month does not have. \<open>strptime\<close> is
  \<^verbatim>\<open>datetime.strptime(s, "%Y-%m-%d").date()\<close>, with \<open>None\<close> for \<^verbatim>\<open>ValueError\<close>.
\<close>

definition strptime :: "string \<Rightarrow> date option" where
  "strptime s =
     (case format_regex_match s of
        None \<Rightarrow> None
      | Some ((y, m, d), rest) \<Rightarrow>
          if rest \<noteq> [] then None
          else (case (py_int y, py_int m, py_int d) of
                  (Some yv, Some mv, Some dv) \<Rightarrow> datetime_date yv mv dv
                | _ \<Rightarrow> None))"


subsection \<open>Formatting with \<^verbatim>\<open>%Y-%m-%d\<close>\<close>

text \<open>
  \<^verbatim>\<open>date.strftime\<close> hands the format to the C library. \<^verbatim>\<open>%m\<close> and \<^verbatim>\<open>%d\<close> are two
  digits everywhere. \<^verbatim>\<open>%Y\<close> is the year in decimal; whether a year below 1000 is filled
  with zeros to four digits depends on the platform (CPython 3.11 on glibc does not
  fill, other platforms do), so the model takes it as a flag.
\<close>

fun decimal :: "nat \<Rightarrow> string" where
  "decimal n = (if n < 10 then [digit_char n] else decimal (n div 10) @ [digit_char (n mod 10)])"

declare decimal.simps [simp del]

definition zfill :: "nat \<Rightarrow> string \<Rightarrow> string" where
  "zfill w s = replicate (w - length s) CHR ''0'' @ s"

definition strftime :: "bool \<Rightarrow> date \<Rightarrow> string" where
  "strftime zero_fill d =
     (if zero_fill then zfill 4 (decimal (year d)) else decimal (year d))
     @ ''-'' @ zfill 2 (decimal (month d)) @ ''-'' @ zfill 2 (decimal (day d))"

section \<open>The store and the driver\<close>

text \<open>
  Modelled from the spec: the table \<^verbatim>\<open>solutions\<close>, which the repository reads and never
  declares, has the columns \<^verbatim>\<open>game_date\<close> (date), \<^verbatim>\<open>game_id\<close> (integer), \<^verbatim>\<open>editor\<close>
  (string) and \<^verbatim>\<open>categories\<close> (a JSON document). The type \<open>'j\<close> is whatever the driver
  decodes the JSON column to: the code declares the field as \<^verbatim>\<open>Any\<close> and never looks
  inside. A row is the dictionary a \<^verbatim>\<open>RealDictCursor\<close> returns.
\<close>

record 'j row =
  game_date :: date
  game_id :: int
  editor :: string
  categories :: 'j

text \<open>
  The calls of \<^verbatim>\<open>psycopg2\<close> the code makes. \<open>failing w c = Some msg\<close> says that in the world
  \<open>w\<close> the call \<open>c\<close> raises \<^verbatim>\<open>psycopg2.Error\<close> with the message \<open>msg\<close> (an unreachable
  server, a failing query). \<^verbatim>\<open>rollback\<close> and \<^verbatim>\<open>close\<close> are taken not to raise.
  The world records every call made (\<open>log\<close>) and counts the connections that are open;
  \<open>zero_fills_year\<close> is the platform's way with \<^verbatim>\<open>%Y\<close>.
\<close>

datatype call = Connect | Cursor | Execute | Fetchone

datatype event =
    EvConnect | EvCursor | EvExecute string "date list" | EvFetchone | EvRollback | EvClose

record 'j world =
  solutions :: "'j row list"
  failing :: "call \<Rightarrow> string option"
  zero_fills_year :: bool
  open_conns :: nat
  log :: "event list"

datatype exn = HTTPException nat string | Psycopg2Error string

definition and_then ::
  "('s \<Rightarrow> (exn + 'a) \<times> 's) \<Rightarrow> ('a \<Rightarrow> 's \<Rightarrow> (exn + 'b) \<times> 's) \<Rightarrow> 's \<Rightarrow> (exn + 'b) \<times> 's" where
  "and_then m f s = (case m s of (Inl e, s') \<Rightarrow> (Inl e, s') | (Inr x, s') \<Rightarrow> f x s')"

definition record_call :: "event \<Rightarrow> 'j world \<Rightarrow> 'j world" where
  "record_call e w = w\<lparr>log := log w @ [e]\<rparr>"

definition psycopg2_connect :: "'j world \<Rightarrow> (exn + unit) \<times> 'j world" where
  "psycopg2_connect w =
     (case failing w Connect of
        Some msg \<Rightarrow> (Inl (Psycopg2Error msg), record_call EvConnect w)
      | None \<Rightarrow> (Inr (), (record_call EvConnect w)\<lparr>open_conns := Suc (open_conns w)\<rparr>))"

definition conn_cursor :: "'j world \<Rightarrow> (exn + unit) \<times> 'j world" where
  "conn_cursor w =
     (case failing w Cursor of
        Some msg \<Rightarrow> (Inl (Psycopg2Error msg), record_call EvCursor w)
      | None \<Rightarrow> (Inr (), record_call EvCursor w))"

text \<open>The statement the code sends, as the triple-quoted literal has it.\<close>

definition select_sql :: string where
  "select_sql =
     ''\<newline>            SELECT game_date, game_id, editor, categories'' @
     ''\<newline>            FROM solutions '' @
     ''\<newline>            WHERE game_date = %s'' @
     ''\<newline>        ''"

text \<open>What the store answers: for \<open>select_sql\<close> with one bound date, the rows of that date
  in table order; the model knows no other statement.\<close>

definition run_sql :: "string \<Rightarrow> date list \<Rightarrow> 'j row list \<Rightarrow> string + 'j row list" where
  "run_sql sql params tbl =
     (case params of
        [p] \<Rightarrow> if sql = select_sql then Inr (filter (\<lambda>r. game_date r = p) tbl)
               else Inl ''syntax error''
      | _ \<Rightarrow> Inl ''syntax error'')"

definition cursor_execute :: "string \<Rightarrow> date list \<Rightarrow> 'j world \<Rightarrow> (exn + 'j row list) \<times> 'j world" where
  "cursor_execute sql params w =
     (case failing w Execute of
        Some msg \<Rightarrow> (Inl (Psycopg2Error msg), record_call (EvExecute sql params) w)
      | None \<Rightarrow>
          (case run_sql sql params (solutions w) of
             Inl msg \<Rightarrow> (Inl (Psycopg2Error msg), record_call (EvExecute sql params) w)
           | Inr rows \<Rightarrow> (Inr rows, record_call (EvExecute sql params) w)))"

definition cursor_fetchone :: "'j row list \<Rightarrow> 'j world \<Rightarrow> (exn + 'j row option) \<times> 'j world" where
  "cursor_fetchone rows w =
     (case failing w Fetchone of
        Some msg \<Rightarrow> (Inl (Psycopg2Error msg), record_call EvFetchone w)
      | None \<Rightarrow> (Inr (case rows of [] \<Rightarrow> None | r # _ \<Rightarrow> Some r), record_call EvFetchone w))"

definition conn_rollback :: "'j world \<Rightarrow> 'j world" where
  "conn_rollback w = record_call EvRollback w"

definition conn_close :: "'j world \<Rightarrow> 'j world" where
  "conn_close w = (record_call EvClose w)\<lparr>open_conns := open_conns w - 1\<rparr>"

section \<open>The application\<close>

text \<open>The unused model \<^verbatim>\<open>Category\<close> and the response model \<^verbatim>\<open>ConnectionsGame\<close>, whose
  fields \<^verbatim>\<open>id\<close>, \<^verbatim>\<open>print_date\<close>, \<^verbatim>\<open>editor\<close> and \<^verbatim>\<open>categories\<close> carry the prefix \<open>cg_\<close> here
  (\<open>id\<close> is a HOL constant, \<open>editor\<close> and \<open>categories\<close> are columns of the row).\<close>

record Category =
  title :: string
  level :: int
  words :: "string list"

record 'j ConnectionsGame =
  cg_id :: int
  cg_print_date :: string
  cg_editor :: string
  cg_categories :: 'j

text \<open>
  The context manager \<^verbatim>\<open>get_db_connection\<close> takes the body of the \<^verbatim>\<open>with\<close> block as an
  argument. When \<^verbatim>\<open>connect\<close> raises, \<^verbatim>\<open>conn\<close> is still \<^verbatim>\<open>None\<close>: nothing is rolled back or
  closed. A \<^verbatim>\<open>psycopg2.Error\<close> of the body is rolled back and replaced by the
  \<^verbatim>\<open>HTTPException\<close>; the \<^verbatim>\<open>finally\<close> clause closes the connection on every way out of the
  body.
\<close>

definition get_db_connection ::
  "('j world \<Rightarrow> (exn + 'a) \<times> 'j world) \<Rightarrow> 'j world \<Rightarrow> (exn + 'a) \<times> 'j world" where
  "get_db_connection body w =
     (case psycopg2_connect w of
        (Inl (Psycopg2Error msg), w1) \<Rightarrow> (Inl (HTTPException 500 (''Database error: '' @ msg)), w1)
      | (Inl e, w1) \<Rightarrow> (Inl e, w1)
      | (Inr conn, w1) \<Rightarrow>
          (case body w1 of
             (Inl (Psycopg2Error msg), w2) \<Rightarrow>
               (Inl (HTTPException 500 (''Database error: '' @ msg)), conn_close (conn_rollback w2))
           | (res, w2) \<Rightarrow> (res, conn_close w2)))"

definition parse_date_string :: "string \<Rightarrow> exn + date" where
  "parse_date_string date_str =
     (case strptime date_str of
        Some d \<Rightarrow> Inr d
      | None \<Rightarrow> Inl (HTTPException 400 ''Invalid date format. Expected YYYY-MM-DD''))"

definition get_connections_game ::
  "string \<Rightarrow> 'j world \<Rightarrow> (exn + 'j ConnectionsGame) \<times> 'j world" where
  "get_connections_game date w =
     (case parse_date_string date of
        Inl e \<Rightarrow> (Inl e, w)
      | Inr parsed_date \<Rightarrow>
          get_db_connection
            (and_then conn_cursor (\<lambda>cursor.
             and_then (cursor_execute select_sql [parsed_date]) (\<lambda>rows.
             and_then (cursor_fetchone rows) (\<lambda>result w'.
               (case result of
                  None \<Rightarrow>
                    (Inl (HTTPException 404 (''No game data found for date '' @ date)), w')
                | Some r \<Rightarrow>
                    (Inr \<lparr>cg_id = game_id r,
                          cg_print_date = strftime (zero_fills_year w') (game_date r),
                          cg_editor = editor r,
                          cg_categories = categories r\<rparr>, w'))))))
            w)"

datatype json = JStr string | JObj "(string \<times> json) list"

definition health_check :: json where
  "health_check = JObj [(''status'', JStr ''healthy'')]"

definition root :: json where
  "root = JObj [(''message'', JStr ''NYTimes Connections API''),
                (''version'', JStr ''1.0.0''),
                (''endpoints'', JObj [(''get_game'', JStr ''/v1/connections/{date}''),
                                      (''health'', JStr ''/health'')])]"

text \<open>
  The three routes of the application, and what the framework makes of a handler's
  outcome: a returned value is the body of a 200 response, an \<^verbatim>\<open>HTTPException\<close> becomes
  its status code with the body \<^verbatim>\<open>{"detail": ...}\<close>, any other exception is the
  framework's plain 500.
\<close>

datatype request = GetConnections string | GetHealth | GetRoot

datatype 'j content = Game "'j ConnectionsGame" | Detail string | Json json | PlainText string

record 'j response =
  status_code :: nat
  content :: "'j content"

definition to_response :: "exn + 'j content \<Rightarrow> 'j response" where
  "to_response r =
     (case r of
        Inr c \<Rightarrow> \<lparr>status_code = 200, content = c\<rparr>
      | Inl (HTTPException code detail) \<Rightarrow> \<lparr>status_code = code, content = Detail detail\<rparr>
      | Inl (Psycopg2Error msg) \<Rightarrow>
          \<lparr>status_code = 500, content = PlainText ''Internal Server Error''\<rparr>)"

definition app :: "request \<Rightarrow> 'j world \<Rightarrow> 'j response \<times> 'j world" where
  "app req w =
     (case req of
        GetConnections date \<Rightarrow>
          (case get_connections_game date w of (r, w') \<Rightarrow> (to_response (map_sum id Game r), w'))
      | GetHealth \<Rightarrow> (to_response (Inr (Json health_check)), w)
      | GetRoot \<Rightarrow> (to_response (Inr (Json root)), w))"


section \<open>The vocabulary of the specification\<close>

text \<open>
  A valid \<^verbatim>\<open>YYYY-MM-DD\<close> calendar date, in the words of the specification: four digits, a
  hyphen, two digits, a hyphen, two digits, naming a day that exists. The years are those
  of \<^verbatim>\<open>datetime.date\<close>, 0001 to 9999.
\<close>

definition iso_year :: "string \<Rightarrow> string" where
  "iso_year s = take 4 s"

definition iso_month :: "string \<Rightarrow> string" where
  "iso_month s = take 2 (drop 5 s)"

definition iso_day :: "string \<Rightarrow> string" where
  "iso_day s = drop 8 s"

definition iso_date :: "string \<Rightarrow> bool" where
  "iso_date s =
     (length s = 10 \<and> s ! 4 = CHR ''-'' \<and> s ! 7 = CHR ''-'' \<and>
      list_all is_digit (iso_year s) \<and> list_all is_digit (iso_month s) \<and>
      list_all is_digit (iso_day s) \<and>
      datetime_date (int_of_digits (iso_year s)) (int_of_digits (iso_month s))
        (int_of_digits (iso_day s)) \<noteq> None)"

definition date_of_iso :: "string \<Rightarrow> date" where
  "date_of_iso s =
     \<lparr>year = int_of_digits (iso_year s), month = int_of_digits (iso_month s),
      day = int_of_digits (iso_day s)\<rparr>"

text \<open>
  The strings \<^verbatim>\<open>strptime\<close> takes for a date: four digits for the year, the month written
  with \<open>i\<close> digits and the day with \<open>j\<close> characters, where \<open>i\<close> and \<open>j\<close> are 1 or 2 and a
  two-character day may be a blank and a digit; the numbers name a day that exists.
\<close>

definition day_field :: "string \<Rightarrow> bool" where
  "day_field D =
     (list_all is_digit D \<or> (length D = 2 \<and> D ! 0 = CHR '' '' \<and> is_digit (D ! 1)))"

definition date_text :: "nat \<Rightarrow> nat \<Rightarrow> string \<Rightarrow> bool" where
  "date_text i j s =
     (length s = 6 + i + j \<and> s ! 4 = CHR ''-'' \<and> s ! (5 + i) = CHR ''-'' \<and>
      list_all is_digit (take 4 s) \<and> list_all is_digit (take i (drop 5 s)) \<and>
      day_field (drop (6 + i) s) \<and>
      datetime_date (int_of_digits (take 4 s)) (int_of_digits (take i (drop 5 s)))
        (int_of_digits (strip (drop (6 + i) s))) \<noteq> None)"


text \<open>The first call, in the order the handler makes them, that fails in a world, and the
  calls of a request for the date \<open>d\<close> that is stopped by a failure of the call \<open>c\<close>: one
  attempt at each call up to \<open>c\<close>, then, when there is a connection, the rollback and the
  close.\<close>

definition first_failing :: "'j world \<Rightarrow> (call \<times> string) option" where
  "first_failing w =
     (case failing w Connect of Some msg \<Rightarrow> Some (Connect, msg) | None \<Rightarrow>
     (case failing w Cursor of Some msg \<Rightarrow> Some (Cursor, msg) | None \<Rightarrow>
     (case failing w Execute of Some msg \<Rightarrow> Some (Execute, msg) | None \<Rightarrow>
     (case failing w Fetchone of Some msg \<Rightarrow> Some (Fetchone, msg) | None \<Rightarrow> None))))"

fun failure_trace :: "call \<Rightarrow> date \<Rightarrow> event list" where
  "failure_trace Connect d = [EvConnect]"
| "failure_trace Cursor d = [EvConnect, EvCursor, EvRollback, EvClose]"
| "failure_trace Execute d = [EvConnect, EvCursor, EvExecute select_sql [d], EvRollback, EvClose]"
| "failure_trace Fetchone d =
     [EvConnect, EvCursor, EvExecute select_sql [d], EvFetchone, EvRollback, EvClose]"

definition lookup_trace :: "date \<Rightarrow> event list" where
  "lookup_trace d = [EvConnect, EvCursor, EvExecute select_sql [d], EvFetchone, EvClose]"

text \<open>The first row of a date, in table order.\<close>

definition first_row :: "date \<Rightarrow> 'j world \<Rightarrow> 'j row option" where
  "first_row d w = find (\<lambda>r. game_date r = d) (solutions w)"

text \<open>The statements a log holds, with their bound parameters.\<close>

fun statements :: "event list \<Rightarrow> (string \<times> date list) list" where
  "statements [] = []"
| "statements (EvExecute sql params # es) = (sql, params) # statements es"
| "statements (e # es) = statements es"

subsection \<open>Worlds of the examples\<close>

text \<open>The record of the specification's scenario, a store that holds it, an empty store,
  and a store that cannot be reached.\<close>

definition fruits_row :: "Category list row" where
  "fruits_row =
     \<lparr>game_date = \<lparr>year = 2024, month = 6, day = 12\<rparr>, game_id = 500, editor = ''Wyna Liu'',
      categories = [\<lparr>title = ''FRUITS'', level = 0,
                     words = [''APPLE'', ''PEAR'', ''PLUM'', ''KIWI'']\<rparr>]\<rparr>"

definition fruits_world :: "Category list world" where
  "fruits_world =
     \<lparr>solutions = [fruits_row], failing = (\<lambda>c. None), zero_fills_year = False,
      open_conns = 0, log = []\<rparr>"

definition empty_world :: "Category list world" where
  "empty_world =
     \<lparr>solutions = [], failing = (\<lambda>c. None), zero_fills_year = False,
      open_conns = 0, log = []\<rparr>"


definition failing_query_world :: "Category list world" where
  "failing_query_world =
     \<lparr>solutions = [fruits_row],
      failing = (\<lambda>c. if c = Execute then Some ''relation does not exist'' else None),
      zero_fills_year = False, open_conns = 0, log = []\<rparr>"


text \<open>The calls a request adds to the log of the world it starts in.\<close>

definition request_trace :: "request \<Rightarrow> 'j world \<Rightarrow> event list" where
  "request_trace req w = drop (length (log w)) (log (snd (app req w)))"

section \<open>Parsing and formatting dates\<close>

subsection \<open>Digits and decimal numerals\<close>

lemma is_digit_cases:
  "is_digit c \<Longrightarrow>
   c = CHR ''0'' \<or> c = CHR ''1'' \<or> c = CHR ''2'' \<or> c = CHR ''3'' \<or> c = CHR ''4'' \<or>
   c = CHR ''5'' \<or> c = CHR ''6'' \<or> c = CHR ''7'' \<or> c = CHR ''8'' \<or> c = CHR ''9''"
  by (simp add: is_digit_def)

lemma is_digit_simps [simp]:
  "is_digit CHR ''0''" "is_digit CHR ''1''" "is_digit CHR ''2''" "is_digit CHR ''3''"
  "is_digit CHR ''4''" "is_digit CHR ''5''" "is_digit CHR ''6''" "is_digit CHR ''7''"
  "is_digit CHR ''8''" "is_digit CHR ''9''" "\<not> is_digit CHR ''-''" "\<not> is_digit CHR '' ''"
  by (simp_all add: is_digit_def)

lemma digit_val_simps [simp]:
  "digit_val CHR ''0'' = 0" "digit_val CHR ''1'' = 1" "digit_val CHR ''2'' = 2"
  "digit_val CHR ''3'' = 3" "digit_val CHR ''4'' = 4" "digit_val CHR ''5'' = 5"
  "digit_val CHR ''6'' = 6" "digit_val CHR ''7'' = 7" "digit_val CHR ''8'' = 8"
  "digit_val CHR ''9'' = 9" "digit_val CHR '' '' = 0"
  by (simp_all add: digit_val_def)

lemma digit_char_simps [simp]:
  "digit_char 0 = CHR ''0''" "digit_char 1 = CHR ''1''" "digit_char 2 = CHR ''2''"
  "digit_char 3 = CHR ''3''" "digit_char 4 = CHR ''4''" "digit_char 5 = CHR ''5''"
  "digit_char 6 = CHR ''6''" "digit_char 7 = CHR ''7''" "digit_char 8 = CHR ''8''"
  "digit_char 9 = CHR ''9''"
  by code_simp+

lemma digit_char_Suc_0 [simp]: "digit_char (Suc 0) = CHR ''1''"
  using digit_char_simps(2) by simp




lemma int_of_digits_simps [simp]:
  "int_of_digits [] = 0"
  "int_of_digits [a] = digit_val a"
  "int_of_digits [a, b] = 10 * digit_val a + digit_val b"
  "int_of_digits [a, b, c, d] = 1000 * digit_val a + 100 * digit_val b + 10 * digit_val c + digit_val d"
  by (simp_all add: int_of_digits_def)







subsection \<open>What the pattern accepts\<close>

lemma rx_digit_match: "rx_match rx_digit (x # xs) = (if is_digit x then [([x], xs)] else [])"
  by (simp add: rx_digit_def is_digit_def)

lemma year_match:
  "is_digit a \<Longrightarrow> is_digit b \<Longrightarrow> is_digit c \<Longrightarrow> is_digit d \<Longrightarrow>
   rx_match rx_Y (a # b # c # d # r) = [([a, b, c, d], r)]"
  by (simp add: rx_Y_def rx_digit_match)

lemma rx_digit_Nil [simp]: "rx_match rx_digit [] = []"
  by (simp add: rx_digit_def)

lemma month_match1:
  assumes "is_digit m1" and "1 \<le> digit_val m1"
  shows "concat (map (\<lambda>(m, r3). concat (map (\<lambda>(h2, r4). F m r4) (rx_match (Cls ''-'') r3)))
     (rx_match rx_m (m1 # CHR ''-'' # rest))) = F [m1] rest"
  using is_digit_cases [OF assms(1)] assms(2)
  by (elim disjE) (simp_all add: rx_m_def)

lemma month_match2:
  assumes "is_digit m1" and "is_digit m2" and "1 \<le> 10 * digit_val m1 + digit_val m2"
    and "10 * digit_val m1 + digit_val m2 \<le> 12"
  shows "concat (map (\<lambda>(m, r3). concat (map (\<lambda>(h2, r4). F m r4) (rx_match (Cls ''-'') r3)))
     (rx_match rx_m (m1 # m2 # CHR ''-'' # rest))) = F [m1, m2] rest"
proof -
  have "m1 = CHR ''0'' \<or> m1 = CHR ''1''"
    using is_digit_cases [OF assms(1)] assms(4) by (elim disjE) simp_all
  then show ?thesis
  proof
    assume "m1 = CHR ''0''"
    then show ?thesis
      using is_digit_cases [OF assms(2)] assms(3)
      by (elim disjE) (simp_all add: rx_m_def)
  next
    assume "m1 = CHR ''1''"
    then show ?thesis
      using is_digit_cases [OF assms(2)] assms(4)
      by (elim disjE) (simp_all add: rx_m_def)
  qed
qed

lemma day_match1:
  assumes "is_digit d1" and "1 \<le> digit_val d1"
  shows "rx_match rx_d [d1] = [([d1], [])]"
  using is_digit_cases [OF assms(1)] assms(2)
  by (elim disjE) (simp_all add: rx_d_def rx_digit_match)

lemma day_match2:
  assumes "is_digit d1" and "is_digit d2" and "1 \<le> 10 * digit_val d1 + digit_val d2"
    and "10 * digit_val d1 + digit_val d2 \<le> 31"
  shows "\<exists>tl. rx_match rx_d [d1, d2] = ([d1, d2], []) # tl"
proof -
  have "d1 = CHR ''0'' \<or> d1 = CHR ''1'' \<or> d1 = CHR ''2'' \<or> d1 = CHR ''3''"
    using is_digit_cases [OF assms(1)] assms(4) by (elim disjE) simp_all
  then consider "d1 = CHR ''0''" | "d1 = CHR ''1''" | "d1 = CHR ''2''" | "d1 = CHR ''3''"
    by blast
  then show ?thesis
  proof cases
    case 1
    then show ?thesis
      using is_digit_cases [OF assms(2)] assms(3)
      by (elim disjE) (simp_all add: rx_d_def rx_digit_match)
  next
    case 2
    then show ?thesis
      using assms(2) by (simp add: rx_d_def rx_digit_match)
  next
    case 3
    then show ?thesis
      using assms(2) by (simp add: rx_d_def rx_digit_match)
  next
    case 4
    then show ?thesis
      using is_digit_cases [OF assms(2)] assms(4)
      by (elim disjE) (simp_all add: rx_d_def rx_digit_match)
  qed
qed

lemma day_match_blank:
  assumes "is_digit d2" and "1 \<le> digit_val d2"
  shows "rx_match rx_d [CHR '' '', d2] = [([CHR '' '', d2], [])]"
  using is_digit_cases [OF assms(1)] assms(2)
  by (elim disjE) (simp_all add: rx_d_def rx_digit_match)


lemma strip_digits: "ds \<noteq> [] \<Longrightarrow> list_all is_digit ds \<Longrightarrow> strip ds = ds"
proof -
  assume ne: "ds \<noteq> []" and dg: "list_all is_digit ds"
  have "is_digit (hd ds)" using ne dg by (cases ds) simp_all
  then have 1: "dropWhile (\<lambda>c. c = CHR '' '') ds = ds"
    by (auto simp add: dropWhile_eq_self_iff)
  have "is_digit (last ds)" using ne dg by (simp add: list_all_iff)
  then have "is_digit (hd (rev ds))" using ne by (simp add: hd_rev)
  then have 2: "dropWhile (\<lambda>c. c = CHR '' '') (rev ds) = rev ds"
    by (auto simp add: dropWhile_eq_self_iff)
  show ?thesis by (simp add: strip_def 1 2)
qed

lemma strip_blank_digit: "is_digit c \<Longrightarrow> strip [CHR '' '', c] = [c]"
  by (auto simp add: strip_def)

lemma py_int_digits:
  "ds \<noteq> [] \<Longrightarrow> list_all is_digit ds \<Longrightarrow> py_int ds = Some (int_of_digits ds)"
  by (simp add: py_int_def strip_digits)

lemma py_int_blank_digit: "is_digit c \<Longrightarrow> py_int [CHR '' '', c] = Some (digit_val c)"
  by (simp add: py_int_def strip_blank_digit)

lemma days_in_month_le: "1 \<le> m \<Longrightarrow> m \<le> 12 \<Longrightarrow> days_in_month y m \<le> 31"
proof -
  assume "1 \<le> m" and "m \<le> 12"
  then have "m = 1 \<or> m = 2 \<or> m = 3 \<or> m = 4 \<or> m = 5 \<or> m = 6 \<or> m = 7 \<or> m = 8 \<or>
      m = 9 \<or> m = 10 \<or> m = 11 \<or> m = 12" by arith
  then show ?thesis by (elim disjE) (simp_all add: days_in_month_def)
qed

lemma datetime_date_bounds:
  assumes "datetime_date y m d \<noteq> None"
  shows "1 \<le> y" "y \<le> 9999" "1 \<le> m" "m \<le> 12" "1 \<le> d" "d \<le> 31"
    "datetime_date y m d = Some \<lparr>year = y, month = m, day = d\<rparr>"
proof -
  have b: "1 \<le> y \<and> y \<le> 9999 \<and> 1 \<le> m \<and> m \<le> 12 \<and> 1 \<le> d \<and> d \<le> days_in_month y m"
    using assms by (simp add: datetime_date_def split: if_splits)
  then show "1 \<le> y" "y \<le> 9999" "1 \<le> m" "m \<le> 12" "1 \<le> d" by simp_all
  show "d \<le> 31" using b days_in_month_le [of m y] by linarith
  show "datetime_date y m d = Some \<lparr>year = y, month = m, day = d\<rparr>"
    using b by (simp add: datetime_date_def)
qed

lemma list_of_length_1: "length xs = 1 \<Longrightarrow> \<exists>a. xs = [a]"
  by (cases xs) simp_all

lemma list_of_length_2: "length xs = 2 \<Longrightarrow> \<exists>a b. xs = [a, b]"
  by (cases xs; cases "tl xs") auto

lemma list_of_length_4: "length xs = 4 \<Longrightarrow> \<exists>a b c d. xs = [a, b, c, d]"
  by (simp add: numeral_eq_Suc length_Suc_conv) blast

lemma year_field_match:
  assumes "length Y = 4" and "list_all is_digit Y"
  shows "rx_match rx_Y (Y @ r) = [(Y, r)]"
proof -
  obtain a b c d where "Y = [a, b, c, d]" using list_of_length_4 [OF assms(1)] by blast
  then show ?thesis using assms(2) by (simp add: year_match)
qed

lemma month_field_match:
  assumes "length M = 1 \<or> length M = 2" and "list_all is_digit M"
    and "1 \<le> int_of_digits M" and "int_of_digits M \<le> 12"
  shows "concat (map (\<lambda>(m, r3). concat (map (\<lambda>(h2, r4). F m r4) (rx_match (Cls ''-'') r3)))
     (rx_match rx_m (M @ CHR ''-'' # rest))) = F M rest"
  using assms(1)
proof
  assume "length M = 1"
  then obtain m1 where "M = [m1]" using list_of_length_1 by blast
  then show ?thesis using assms(2,3) month_match1 [of m1 F rest] by simp
next
  assume "length M = 2"
  then obtain m1 m2 where "M = [m1, m2]" using list_of_length_2 by blast
  then show ?thesis using assms(2,3,4) month_match2 [of m1 m2 F rest] by simp
qed

lemma day_field_cases:
  assumes "day_field D" and "length D = 1 \<or> length D = 2"
  obtains d1 where "D = [d1]" and "is_digit d1"
  | d1 d2 where "D = [d1, d2]" and "is_digit d1" and "is_digit d2"
  | d2 where "D = [CHR '' '', d2]" and "is_digit d2"
  using assms(2)
proof
  assume "length D = 1"
  then obtain d1 where "D = [d1]" using list_of_length_1 by blast
  then show ?thesis using assms(1) that(1) by (auto simp add: day_field_def)
next
  assume "length D = 2"
  then obtain d1 d2 where "D = [d1, d2]" using list_of_length_2 by blast
  then show ?thesis using assms(1) that(2,3) by (auto simp add: day_field_def)
qed

lemma day_field_int:
  assumes "day_field D" and "length D = 1 \<or> length D = 2"
  shows "py_int D = Some (int_of_digits (strip D))"
  using assms
  by (cases rule: day_field_cases) (simp_all add: py_int_digits strip_digits py_int_blank_digit
      strip_blank_digit)

lemma day_field_match:
  assumes "day_field D" and "length D = 1 \<or> length D = 2"
    and "1 \<le> int_of_digits (strip D)" and "int_of_digits (strip D) \<le> 31"
  shows "\<exists>tl. rx_match rx_d D = (D, []) # tl"
  using assms(1,2)
proof (cases rule: day_field_cases)
  case (1 d1)
  then show ?thesis using assms(3) day_match1 [of d1] by (simp add: strip_digits)
next
  case (2 d1 d2)
  then show ?thesis using assms(3,4) day_match2 [of d1 d2] by (simp add: strip_digits)
next
  case (3 d2)
  then show ?thesis using assms(3) day_match_blank [of d2] by (simp add: strip_blank_digit)
qed

lemma strptime_fields:
  assumes Y: "length Y = 4" "list_all is_digit Y"
    and M: "length M = 1 \<or> length M = 2" "list_all is_digit M"
    and D: "day_field D" "length D = 1 \<or> length D = 2"
    and v: "datetime_date (int_of_digits Y) (int_of_digits M) (int_of_digits (strip D)) \<noteq> None"
  shows "strptime (Y @ CHR ''-'' # M @ CHR ''-'' # D) =
         Some \<lparr>year = int_of_digits Y, month = int_of_digits M,
               day = int_of_digits (strip D)\<rparr>"
proof -
  note bd = datetime_date_bounds [OF v]
  obtain tl where tl: "rx_match rx_d D = (D, []) # tl"
    using day_field_match [OF D bd(5,6)] by blast
  have Yne: "Y \<noteq> []" and Mne: "M \<noteq> []" using Y(1) M(1) by auto
  have "format_regex_match (Y @ CHR ''-'' # M @ CHR ''-'' # D) = Some ((Y, M, D), [])"
    by (simp add: format_regex_match_def year_field_match [OF Y]
        month_field_match [OF M bd(3,4)] tl)
  then show ?thesis
    by (simp add: strptime_def py_int_digits [OF Yne Y(2)] py_int_digits [OF Mne M(2)]
        day_field_int [OF D] bd(7))
qed

lemma date_text_split:
  assumes "length s = 6 + i + j" and "s ! 4 = h1" and "s ! (5 + i) = h2"
  shows "s = take 4 s @ h1 # take i (drop 5 s) @ h2 # drop (6 + i) s"
proof -
  have 1: "drop 4 s = h1 # drop 5 s"
    using assms(1,2) Cons_nth_drop_Suc [of 4 s] by simp
  have 2: "drop (5 + i) s = h2 # drop (6 + i) s"
    using assms(1,3) Cons_nth_drop_Suc [of "5 + i" s] by simp
  have 3: "drop i (drop 5 s) = h2 # drop (6 + i) s"
    using 2 by (simp add: add.commute)
  have "take 4 s @ h1 # take i (drop 5 s) @ h2 # drop (6 + i) s =
        take 4 s @ h1 # take i (drop 5 s) @ drop i (drop 5 s)"
    by (simp only: 3)
  also have "\<dots> = take 4 s @ h1 # drop 5 s"
    by (simp only: append_take_drop_id)
  also have "\<dots> = take 4 s @ drop 4 s"
    by (simp only: 1)
  also have "\<dots> = s"
    by (simp only: append_take_drop_id)
  finally show ?thesis by (rule sym)
qed

lemma strptime_accepts:
  assumes "date_text i j s" and i: "i = 1 \<or> i = 2" and j: "j = 1 \<or> j = 2"
  shows "strptime s =
         Some \<lparr>year = int_of_digits (take 4 s), month = int_of_digits (take i (drop 5 s)),
               day = int_of_digits (strip (drop (6 + i) s))\<rparr>"
proof -
  from assms(1) have len: "length s = 6 + i + j" and h: "s ! 4 = CHR ''-''" "s ! (5 + i) = CHR ''-''"
    and Y: "list_all is_digit (take 4 s)" and M: "list_all is_digit (take i (drop 5 s))"
    and D: "day_field (drop (6 + i) s)"
    and v: "datetime_date (int_of_digits (take 4 s)) (int_of_digits (take i (drop 5 s)))
        (int_of_digits (strip (drop (6 + i) s))) \<noteq> None"
    by (simp_all add: date_text_def)
  have lY: "length (take 4 s) = 4" using len by simp
  have lM: "length (take i (drop 5 s)) = 1 \<or> length (take i (drop 5 s)) = 2"
    using len i j by auto
  have lD: "length (drop (6 + i) s) = 1 \<or> length (drop (6 + i) s) = 2"
    using len i j by auto
  have "strptime (take 4 s @ CHR ''-'' # take i (drop 5 s) @ CHR ''-'' # drop (6 + i) s) =
         Some \<lparr>year = int_of_digits (take 4 s), month = int_of_digits (take i (drop 5 s)),
               day = int_of_digits (strip (drop (6 + i) s))\<rparr>"
    by (rule strptime_fields [OF lY Y lM M D lD v])
  then show ?thesis using date_text_split [OF len h] by simp
qed


subsection \<open>What the pattern rejects\<close>














subsection \<open>Canonical dates\<close>

lemma iso_date_text: "iso_date s \<Longrightarrow> date_text 2 2 s"
proof -
  assume a: "iso_date s"
  then have "length (iso_day s) = 2" "list_all is_digit (iso_day s)"
    by (simp_all add: iso_date_def iso_day_def)
  then have "strip (drop 8 s) = drop 8 s" "day_field (drop 8 s)"
    using strip_digits [of "iso_day s"] by (auto simp add: iso_day_def day_field_def)
  then show ?thesis
    using a by (simp add: iso_date_def date_text_def iso_year_def iso_month_def iso_day_def)
qed

lemma strptime_iso: "iso_date s \<Longrightarrow> strptime s = Some (date_of_iso s)"
proof -
  assume a: "iso_date s"
  then have "length (iso_day s) = 2" "list_all is_digit (iso_day s)"
    by (simp_all add: iso_date_def iso_day_def)
  then have "strip (drop 8 s) = drop 8 s"
    using strip_digits [of "iso_day s"] by (auto simp add: iso_day_def)
  then show ?thesis
    using strptime_accepts [OF iso_date_text [OF a]]
    by (simp add: date_of_iso_def iso_year_def iso_month_def iso_day_def)
qed




subsection \<open>Formatting a date\<close>












section \<open>Running a request\<close>

lemma find_filter: "(case filter P xs of [] \<Rightarrow> None | r # _ \<Rightarrow> Some r) = find P xs"
  by (induction xs) auto

lemma app_rejected:
  "strptime s = None \<Longrightarrow>
   app (GetConnections s) w =
     (\<lparr>status_code = 400, content = Detail ''Invalid date format. Expected YYYY-MM-DD''\<rparr>, w)"
  by (simp add: app_def get_connections_game_def parse_date_string_def to_response_def)

lemma app_failure:
  "strptime s = Some d \<Longrightarrow> first_failing w = Some (c, msg) \<Longrightarrow>
   app (GetConnections s) w =
     (\<lparr>status_code = 500, content = Detail (''Database error: '' @ msg)\<rparr>,
      w\<lparr>log := log w @ failure_trace c d\<rparr>)"
  by (auto simp add: app_def get_connections_game_def parse_date_string_def to_response_def
      get_db_connection_def psycopg2_connect_def and_then_def conn_cursor_def cursor_execute_def
      cursor_fetchone_def conn_close_def conn_rollback_def record_call_def first_failing_def run_sql_def
      split: option.splits)

lemma app_lookup:
  "strptime s = Some d \<Longrightarrow> first_failing w = None \<Longrightarrow>
   app (GetConnections s) w =
     (case first_row d w of
        None \<Rightarrow> \<lparr>status_code = 404, content = Detail (''No game data found for date '' @ s)\<rparr>
      | Some r \<Rightarrow> \<lparr>status_code = 200, content = Game
           \<lparr>cg_id = game_id r, cg_print_date = strftime (zero_fills_year w) (game_date r),
            cg_editor = editor r, cg_categories = categories r\<rparr>\<rparr>,
      w\<lparr>log := log w @ lookup_trace d\<rparr>)"
  by (auto simp add: app_def get_connections_game_def parse_date_string_def to_response_def
      get_db_connection_def psycopg2_connect_def and_then_def conn_cursor_def cursor_execute_def
      cursor_fetchone_def conn_close_def conn_rollback_def record_call_def first_failing_def run_sql_def
      first_row_def lookup_trace_def find_filter [symmetric]
      split: option.splits list.splits)

lemma app_static:
  "app GetHealth w = (\<lparr>status_code = 200, content = Json health_check\<rparr>, w)"
  "app GetRoot w = (\<lparr>status_code = 200, content = Json root\<rparr>, w)"
  by (simp_all add: app_def to_response_def)

text \<open>Whatever the request, the world it leaves differs from the one it found in the
  log only, and the log has grown at its end.\<close>

lemma app_world: "\<exists>tr. snd (app req w) = w\<lparr>log := log w @ tr\<rparr>"
proof (cases req)
  case (GetConnections s)
  show ?thesis
  proof (cases "strptime s")
    case None
    then have "snd (app req w) = w\<lparr>log := log w @ []\<rparr>"
      using GetConnections by (simp add: app_rejected)
    then show ?thesis by blast
  next
    case (Some d)
    show ?thesis
    proof (cases "first_failing w")
      case None
      then have "snd (app req w) = w\<lparr>log := log w @ lookup_trace d\<rparr>"
        using GetConnections Some by (simp add: app_lookup)
      then show ?thesis by blast
    next
      case (Some cm)
      then obtain c msg where "first_failing w = Some (c, msg)" by (cases cm) simp
      then have "snd (app req w) = w\<lparr>log := log w @ failure_trace c d\<rparr>"
        using GetConnections \<open>strptime s = Some d\<close> by (simp add: app_failure)
      then show ?thesis by blast
    qed
  qed
next
  case GetHealth
  have "snd (app req w) = w\<lparr>log := log w @ []\<rparr>"
    using GetHealth by (simp add: app_static)
  then show ?thesis by blast
next
  case GetRoot
  have "snd (app req w) = w\<lparr>log := log w @ []\<rparr>"
    using GetRoot by (simp add: app_static)
  then show ?thesis by blast
qed

lemma first_failing_log [simp]: "first_failing (w\<lparr>log := l\<rparr>) = first_failing w"
  by (simp add: first_failing_def split: option.splits)

lemma first_row_log [simp]: "first_row d (w\<lparr>log := l\<rparr>) = first_row d w"
  by (simp add: first_row_def)




lemma open_conns_app: "open_conns (snd (app req w)) = open_conns w"
proof -
  obtain tr where "snd (app req w) = w\<lparr>log := log w @ tr\<rparr>" using app_world by blast
  then show ?thesis by simp
qed

section \<open>The claims\<close>









text \<open>
  C4. For a valid \<^verbatim>\<open>YYYY-MM-DD\<close> date, when the store answers and holds no row of that
  date, the response is 404 with the detail \<^verbatim>\<open>No game data found for date \<close> followed by
  the date. (What happens when the store does not answer is C5.)
\<close>

theorem valid_date_without_record_is_404:
  assumes "iso_date s" and "first_failing w = None" and "first_row (date_of_iso s) w = None"
  shows "fst (app (GetConnections s) w) =
         \<lparr>status_code = 404, content = Detail (''No game data found for date '' @ s)\<rparr>"
  using app_lookup [OF strptime_iso [OF assms(1)] assms(2)] assms(3) by simp

theorem valid_date_without_record_is_404_witness:
  "iso_date ''2099-01-01'' \<and> first_failing empty_world = None
   \<and> first_row (date_of_iso ''2099-01-01'') empty_world = None
   \<and> fst (app (GetConnections ''2099-01-01'') empty_world) =
       \<lparr>status_code = 404, content = Detail ''No game data found for date 2099-01-01''\<rparr>"
proof -
  have i: "iso_date ''2099-01-01''" by code_simp
  have f: "first_failing empty_world = None"
    by (simp add: first_failing_def empty_world_def)
  have r: "first_row (date_of_iso ''2099-01-01'') empty_world = None"
    by (simp add: first_row_def empty_world_def)
  show ?thesis
    using valid_date_without_record_is_404 [OF i f r] i f r by simp
qed




text \<open>
  C6. Whatever the request and whatever the state of the store, the request leaves as
  many connections open as it found: on every way out of the handler the connection it
  acquired has been closed. When the date is accepted and the connection is established,
  the last call of the request is the close.
\<close>

theorem connection_released:
  "open_conns (snd (app req w)) = open_conns w
   \<and> (\<forall>s d. req = GetConnections s \<and> strptime s = Some d \<and> failing w Connect = None
        \<longrightarrow> last (request_trace req w) = EvClose)"
proof (intro conjI allI impI)
  show "open_conns (snd (app req w)) = open_conns w" by (rule open_conns_app)
next
  fix s d
  assume a: "req = GetConnections s \<and> strptime s = Some d \<and> failing w Connect = None"
  show "last (request_trace req w) = EvClose"
  proof (cases "first_failing w")
    case None
    then show ?thesis using a by (simp add: app_lookup request_trace_def lookup_trace_def)
  next
    case (Some cm)
    then obtain c msg where f: "first_failing w = Some (c, msg)" by (cases cm) simp
    with a have "c \<noteq> Connect" by (auto simp add: first_failing_def split: option.splits)
    then show ?thesis using a f by (cases c) (simp_all add: app_failure request_trace_def)
  qed
qed

theorem connection_released_witness:
  "strptime ''2024-06-12'' = Some \<lparr>year = 2024, month = 6, day = 12\<rparr>
   \<and> failing failing_query_world Connect = None
   \<and> open_conns (snd (app (GetConnections ''2024-06-12'') failing_query_world)) = 0
   \<and> last (request_trace (GetConnections ''2024-06-12'') failing_query_world) = EvClose"
proof -
  have p: "strptime ''2024-06-12'' = Some \<lparr>year = 2024, month = 6, day = 12\<rparr>"
    by code_simp
  have f: "failing failing_query_world Connect = None"
    by (simp add: failing_query_world_def)
  have o: "open_conns failing_query_world = 0"
    by (simp add: failing_query_world_def)
  show ?thesis
    using connection_released [of "GetConnections ''2024-06-12''" failing_query_world] p f o
    by simp
qed

text \<open>
  C7. The health check answers 200 with the body \<^verbatim>\<open>{"status": "healthy"}\<close> in every
  world, reachable store or not, and leaves the world as it found it: it makes no call
  to the driver.
\<close>

theorem health_always_healthy:
  "app GetHealth w =
     (\<lparr>status_code = 200, content = Json (JObj [(''status'', JStr ''healthy'')])\<rparr>, w)"
  by (simp add: app_static health_check_def)

text \<open>
  C8. A request for a date leaves the table as it found it, and the same request made
  again in the world the first one left gets the same response.
\<close>

theorem repeated_get_same_response:
  "fst (app (GetConnections s) (snd (app (GetConnections s) w))) = fst (app (GetConnections s) w)
   \<and> solutions (snd (app (GetConnections s) w)) = solutions w"
proof (cases "strptime s")
  case None
  then show ?thesis by (simp add: app_rejected)
next
  case (Some d)
  show ?thesis
  proof (cases "first_failing w")
    case None
    then show ?thesis using Some by (simp add: app_lookup split: option.splits)
  next
    case (Some cm)
    then obtain c msg where "first_failing w = Some (c, msg)" by (cases cm) simp
    then show ?thesis using \<open>strptime s = Some d\<close> by (simp add: app_failure)
  qed
qed

text \<open>
  C9. Every statement a request sends to the store is the constant \<open>select_sql\<close>, whatever
  the date asked for; the parsed date travels as the one bound parameter.
\<close>

theorem sql_text_is_constant:
  assumes "(q, ps) \<in> set (statements (request_trace (GetConnections s) w))"
  shows "q = select_sql \<and> (\<exists>d. strptime s = Some d \<and> ps = [d])"
proof (cases "strptime s")
  case None
  then show ?thesis using assms by (simp add: app_rejected request_trace_def)
next
  case (Some d)
  show ?thesis
  proof (cases "first_failing w")
    case None
    then show ?thesis using Some assms by (simp add: app_lookup request_trace_def lookup_trace_def)
  next
    case (Some cm)
    then obtain c msg where "first_failing w = Some (c, msg)" by (cases cm) simp
    then show ?thesis using \<open>strptime s = Some d\<close> assms
      by (cases c) (simp_all add: app_failure request_trace_def)
  qed
qed

theorem sql_text_is_constant_witness:
  "(select_sql, [\<lparr>year = 2024, month = 6, day = 12\<rparr>])
     \<in> set (statements (request_trace (GetConnections ''2024-06-12'') fruits_world))
   \<and> (\<exists>d. strptime ''2024-06-12'' = Some d \<and> [\<lparr>year = 2024, month = 6, day = 12\<rparr>] = [d])"
proof -
  have p: "strptime ''2024-06-12'' = Some \<lparr>year = 2024, month = 6, day = 12\<rparr>"
    by code_simp
  have f: "first_failing fruits_world = None"
    by (simp add: first_failing_def fruits_world_def)
  have h: "(select_sql, [\<lparr>year = 2024, month = 6, day = 12\<rparr>])
     \<in> set (statements (request_trace (GetConnections ''2024-06-12'') fruits_world))"
    by (simp add: app_lookup [OF p f] request_trace_def lookup_trace_def)
  show ?thesis using sql_text_is_constant [OF h] h by simp
qed

text \<open>
  C10. The detail of the 404 is built from the string of the request, not from the date
  it was parsed to: for every string that \<^verbatim>\<open>strptime\<close> accepts, when the store answers and
  holds no row of the date, the detail is \<^verbatim>\<open>No game data found for date \<close> followed by
  that string, as for \<^verbatim>\<open>2024-6-1\<close>, whose date is written \<^verbatim>\<open>2024-06-01\<close>.
\<close>

theorem not_found_detail_is_raw_input:
  assumes "strptime s = Some d" and "first_failing w = None" and "first_row d w = None"
  shows "fst (app (GetConnections s) w) =
         \<lparr>status_code = 404, content = Detail (''No game data found for date '' @ s)\<rparr>"
  using app_lookup [OF assms(1,2)] assms(3) by simp

theorem not_found_detail_is_raw_input_witness:
  "strptime ''2024-6-1'' = Some \<lparr>year = 2024, month = 6, day = 1\<rparr>
   \<and> strftime True \<lparr>year = 2024, month = 6, day = 1\<rparr> = ''2024-06-01''
   \<and> first_failing empty_world = None
   \<and> first_row \<lparr>year = 2024, month = 6, day = 1\<rparr> empty_world = None
   \<and> fst (app (GetConnections ''2024-6-1'') empty_world) =
       \<lparr>status_code = 404, content = Detail ''No game data found for date 2024-6-1''\<rparr>"
proof -
  have p: "strptime ''2024-6-1'' = Some \<lparr>year = 2024, month = 6, day = 1\<rparr>" by code_simp
  have t: "strftime True \<lparr>year = 2024, month = 6, day = 1\<rparr> = ''2024-06-01''" by code_simp
  have f: "first_failing empty_world = None"
    by (simp add: first_failing_def empty_world_def)
  have r: "first_row \<lparr>year = 2024, month = 6, day = 1\<rparr> empty_world = None"
    by (simp add: first_row_def empty_world_def)
  show ?thesis
    using not_found_detail_is_raw_input [OF p f r] p t f r by simp
qed

end
